theory Spec2Isabelle
  imports Main "HOL-Library.Word"
begin

unbundle bit_operations_syntax

section \<open>The KMS device of \<^verbatim>\<open>src/backends/native/meta-kms-device.c\<close>\<close>

text \<open>
  A shallow embedding of \<^verbatim>\<open>meta-kms-device.c\<close>. Pointers to GObjects become the
  objects' values, a \<^verbatim>\<open>GList\<close> of object pointers becomes a HOL list, out-parameters
  become extra results, and a failed \<^verbatim>\<open>g_assert\<close> (the process aborts) becomes the
  result \<open>None\<close>. A local variable of the source whose name is also the name of a
  struct field is abbreviated (\<open>impl_dev\<close> for \<^verbatim>\<open>impl_device\<close>,
  \<open>dev_path\<close> for \<^verbatim>\<open>path\<close>, \<open>dev_flags\<close> for \<^verbatim>\<open>flags\<close>).
  Functions and constants that the file calls but that live in other files of the
  backend are parameters of the functions modelled here, unless a comment says that they
  are modelled from the specification.
\<close>

subsection \<open>Data model\<close>

type_synonym uint32_t = "32 word"
type_synonym uint64_t = "64 word"

text \<open>\<^verbatim>\<open>MetaKmsDeviceFlag\<close> and \<^verbatim>\<open>MetaKmsUpdateFlag\<close> are C enums used as bit sets.\<close>

type_synonym MetaKmsDeviceFlag = "32 word"
type_synonym MetaKmsUpdateChanges = "32 word"

datatype MetaKmsPlaneType =
    META_KMS_PLANE_TYPE_PRIMARY
  | META_KMS_PLANE_TYPE_CURSOR
  | META_KMS_PLANE_TYPE_OVERLAY

record MetaKmsCrtc =
  kms_crtc_id :: uint32_t
  kms_crtc_idx :: nat

record MetaKmsConnector =
  kms_connector_id :: uint32_t

record MetaKmsPlane =
  kms_plane_id :: uint32_t
  plane_type :: MetaKmsPlaneType
  possible_crtcs :: uint32_t

type_synonym MetaKmsMode = nat

text \<open>\<^verbatim>\<open>MetaKmsDeviceCaps\<close>, with the fields that \<^verbatim>\<open>meta-kms-device.c\<close> reads.\<close>

record MetaKmsDeviceCaps =
  has_cursor_size :: bool
  cursor_width :: uint64_t
  cursor_height :: uint64_t
  prefers_shadow_buffer :: bool
  uses_monotonic_clock :: bool
  addfb2_modifiers :: bool

text \<open>The three \<^verbatim>\<open>GType\<close>s of backend that the file names.\<close>

datatype GType =
    META_TYPE_KMS_IMPL_DEVICE_ATOMIC
  | META_TYPE_KMS_IMPL_DEVICE_SIMPLE
  | META_TYPE_KMS_IMPL_DEVICE_DUMMY

text \<open>
  A \<^verbatim>\<open>GError\<close>. The error domains are quarks; the two that the file names are
  constructors and every other domain is \<open>OTHER_DOMAIN n\<close>.
\<close>

datatype GQuark = META_KMS_ERROR | G_IO_ERROR | OTHER_DOMAIN nat

record GError =
  domain :: GQuark
  code :: int
  message :: string

text \<open>
  The backend object \<^verbatim>\<open>MetaKmsImplDevice\<close>: what its accessors hand to the device
  (the live lists, the capabilities, the driver strings and its own path), and the modes
  that are currently set on its CRTCs, keyed by CRTC id.
\<close>

record MetaKmsImplDevice =
  impl_type :: GType
  impl_path :: string
  impl_driver_name :: string
  impl_driver_description :: string
  impl_crtcs :: "MetaKmsCrtc list"
  impl_connectors :: "MetaKmsConnector list"
  impl_planes :: "MetaKmsPlane list"
  impl_caps :: MetaKmsDeviceCaps
  impl_fallback_modes :: "MetaKmsMode list"
  impl_active_modes :: "(uint32_t \<times> MetaKmsMode) list"

text \<open>
  \<^verbatim>\<open>struct _MetaKmsDevice\<close>. The device owns its backend exclusively, so the field
  \<open>impl_device\<close> holds the backend's value; \<open>None\<close> is the \<^verbatim>\<open>NULL\<close> of a
  device that \<^verbatim>\<open>g_object_new\<close> has just zero-initialised.
\<close>

record MetaKmsDevice =
  impl_device :: "MetaKmsImplDevice option"
  flags :: MetaKmsDeviceFlag
  path :: string
  driver_name :: string
  driver_description :: string
  crtcs :: "MetaKmsCrtc list"
  connectors :: "MetaKmsConnector list"
  planes :: "MetaKmsPlane list"
  caps :: MetaKmsDeviceCaps
  fallback_modes :: "MetaKmsMode list"

text \<open>
  \<^verbatim>\<open>MetaKms\<close> together with its \<^verbatim>\<open>MetaKmsImpl\<close>: the two context flags that the
  assertions read, the backends registered with the impl, and two logs of what the code
  does to the outside world: the backend types handed to \<^verbatim>\<open>g_initable_new\<close>, in call
  order, and the messages given to \<^verbatim>\<open>g_warning\<close>.
\<close>

record MetaKms =
  in_impl_task :: bool
  waiting_for_impl_task :: bool
  impl_devices :: "MetaKmsImplDevice list"
  initable_new_calls :: "GType list"
  warnings :: "string list"

subsection \<open>Getters\<close>

definition meta_kms_device_get_impl_device :: "MetaKmsDevice \<Rightarrow> MetaKmsImplDevice option" where
  "meta_kms_device_get_impl_device device = impl_device device"

definition meta_kms_device_get_path :: "MetaKmsDevice \<Rightarrow> string" where
  "meta_kms_device_get_path device = path device"

definition meta_kms_device_get_flags :: "MetaKmsDevice \<Rightarrow> MetaKmsDeviceFlag" where
  "meta_kms_device_get_flags device = flags device"

definition meta_kms_device_get_planes :: "MetaKmsDevice \<Rightarrow> MetaKmsPlane list" where
  "meta_kms_device_get_planes device = planes device"

definition meta_kms_device_get_crtcs :: "MetaKmsDevice \<Rightarrow> MetaKmsCrtc list" where
  "meta_kms_device_get_crtcs device = crtcs device"

definition meta_kms_device_get_connectors :: "MetaKmsDevice \<Rightarrow> MetaKmsConnector list" where
  "meta_kms_device_get_connectors device = connectors device"

text \<open>
  \<^verbatim>\<open>meta_kms_device_get_cursor_size\<close>. The two out-parameters are passed in with the
  values they hold before the call and come back with the values they hold after it.
\<close>

definition meta_kms_device_get_cursor_size ::
  "MetaKmsDevice \<Rightarrow> uint64_t \<Rightarrow> uint64_t \<Rightarrow> bool \<times> uint64_t \<times> uint64_t" where
  "meta_kms_device_get_cursor_size device out_cursor_width out_cursor_height =
     (if has_cursor_size (caps device)
      then (True, cursor_width (caps device), cursor_height (caps device))
      else (False, out_cursor_width, out_cursor_height))"

subsection \<open>Plane queries\<close>

text \<open>
  \<^verbatim>\<open>get_plane_with_type_for\<close>: the loop over the cached planes.
  \<^verbatim>\<open>meta_kms_plane_is_usable_with\<close> is defined in \<^verbatim>\<open>meta-kms-plane.c\<close>; it is the
  parameter \<open>is_usable_with\<close>.
\<close>

fun scan_planes ::
  "(MetaKmsPlane \<Rightarrow> MetaKmsCrtc \<Rightarrow> bool) \<Rightarrow> MetaKmsPlane list \<Rightarrow> MetaKmsCrtc \<Rightarrow>
   MetaKmsPlaneType \<Rightarrow> MetaKmsPlane option" where
  "scan_planes is_usable_with [] crtc type = None"
| "scan_planes is_usable_with (plane # l) crtc type =
     (if plane_type plane \<noteq> type then scan_planes is_usable_with l crtc type
      else if is_usable_with plane crtc then Some plane
      else scan_planes is_usable_with l crtc type)"

definition get_plane_with_type_for ::
  "(MetaKmsPlane \<Rightarrow> MetaKmsCrtc \<Rightarrow> bool) \<Rightarrow> MetaKmsDevice \<Rightarrow> MetaKmsCrtc \<Rightarrow>
   MetaKmsPlaneType \<Rightarrow> MetaKmsPlane option" where
  "get_plane_with_type_for is_usable_with device crtc type =
     scan_planes is_usable_with (meta_kms_device_get_planes device) crtc type"

definition meta_kms_device_get_primary_plane_for ::
  "(MetaKmsPlane \<Rightarrow> MetaKmsCrtc \<Rightarrow> bool) \<Rightarrow> MetaKmsDevice \<Rightarrow> MetaKmsCrtc \<Rightarrow>
   MetaKmsPlane option" where
  "meta_kms_device_get_primary_plane_for is_usable_with device crtc =
     get_plane_with_type_for is_usable_with device crtc META_KMS_PLANE_TYPE_PRIMARY"

definition meta_kms_device_get_cursor_plane_for ::
  "(MetaKmsPlane \<Rightarrow> MetaKmsCrtc \<Rightarrow> bool) \<Rightarrow> MetaKmsDevice \<Rightarrow> MetaKmsCrtc \<Rightarrow>
   MetaKmsPlane option" where
  "meta_kms_device_get_cursor_plane_for is_usable_with device crtc =
     get_plane_with_type_for is_usable_with device crtc META_KMS_PLANE_TYPE_CURSOR"

subsection \<open>Errors and the privileged context\<close>

text \<open>
  A \<^verbatim>\<open>GError **error\<close> argument is the boolean "the location is not \<^verbatim>\<open>NULL\<close>";
  what the callee stores there is a result of type \<open>GError option\<close>. With a
  \<^verbatim>\<open>NULL\<close> location nothing is stored, as in GLib.
\<close>

definition g_propagate_error :: "bool \<Rightarrow> GError \<Rightarrow> GError option" where
  "g_propagate_error error e = (if error then Some e else None)"

definition G_IO_ERROR_FAILED :: int where
  "G_IO_ERROR_FAILED = 0"

definition g_set_error :: "bool \<Rightarrow> GQuark \<Rightarrow> int \<Rightarrow> string \<Rightarrow> GError option" where
  "g_set_error error d c m =
     g_propagate_error error \<lparr>domain = d, code = c, message = m\<rparr>"

definition g_warning :: "string \<Rightarrow> MetaKms \<Rightarrow> MetaKms" where
  "g_warning msg kms = kms\<lparr>warnings := warnings kms @ [msg]\<rparr>"

text \<open>
  Modelled from the spec: \<^verbatim>\<open>meta_kms_run_impl_task_sync\<close> is defined in
  \<^verbatim>\<open>meta-kms.c\<close>, which is not among the sources. The specification describes the
  task dispatcher as a synchronous call primitive: the caller submits a task, the
  dispatcher runs it inside the privileged context and the caller is blocked until a
  result or an error is produced. The task gets the error location of the caller. The
  two context flags are set while the task runs and cleared when it has returned. A task
  that aborts (\<open>None\<close>) aborts the call.
\<close>

definition meta_kms_run_impl_task_sync ::
  "MetaKms \<Rightarrow> (MetaKms \<Rightarrow> 'd \<Rightarrow> bool \<Rightarrow> ('r \<times> GError option \<times> 'd \<times> MetaKms) option) \<Rightarrow>
   'd \<Rightarrow> bool \<Rightarrow> ('r \<times> GError option \<times> 'd \<times> MetaKms) option" where
  "meta_kms_run_impl_task_sync kms func user_data error =
     (case func (kms\<lparr>in_impl_task := True, waiting_for_impl_task := True\<rparr>) user_data error of
        None \<Rightarrow> None
      | Some (ret, err, user_data', kms') \<Rightarrow>
          Some (ret, err, user_data',
                kms'\<lparr>waiting_for_impl_task := False, in_impl_task := False\<rparr>))"

text \<open>
  Modelled from the spec: the three assertion macros are declared in
  \<^verbatim>\<open>meta-kms-private.h\<close>, which is not among the sources. The specification says
  that an operation marked as privileged-context-only is checked by a context assertion
  that is fatal when the caller is outside that context, and the reverse for an operation
  of the callers. Each definition is the condition that the macro asserts.
\<close>

definition meta_assert_in_kms_impl :: "MetaKms \<Rightarrow> bool" where
  [simp]: "meta_assert_in_kms_impl kms = in_impl_task kms"

definition meta_assert_not_in_kms_impl :: "MetaKms \<Rightarrow> bool" where
  [simp]: "meta_assert_not_in_kms_impl kms = (\<not> in_impl_task kms)"

definition meta_assert_is_waiting_for_kms_impl_task :: "MetaKms \<Rightarrow> bool" where
  [simp]: "meta_assert_is_waiting_for_kms_impl_task kms = waiting_for_impl_task kms"

subsection \<open>Backend accessors\<close>

text \<open>
  Modelled from the spec: the accessors of \<^verbatim>\<open>MetaKmsImplDevice\<close> are defined in
  \<^verbatim>\<open>meta-kms-impl-device.c\<close>, which is not among the sources. The specification's
  backend interface enumerates crtcs, connectors, planes, capabilities, fallback modes,
  driver name, driver description and canonical path; the \<^verbatim>\<open>copy\<close> accessors hand
  out fresh copies of the backend's lists.
\<close>

definition meta_kms_impl_device_copy_crtcs :: "MetaKmsImplDevice \<Rightarrow> MetaKmsCrtc list" where
  "meta_kms_impl_device_copy_crtcs impl_dev = impl_crtcs impl_dev"

definition meta_kms_impl_device_copy_connectors ::
  "MetaKmsImplDevice \<Rightarrow> MetaKmsConnector list" where
  "meta_kms_impl_device_copy_connectors impl_dev = impl_connectors impl_dev"

definition meta_kms_impl_device_copy_planes :: "MetaKmsImplDevice \<Rightarrow> MetaKmsPlane list" where
  "meta_kms_impl_device_copy_planes impl_dev = impl_planes impl_dev"

definition meta_kms_impl_device_copy_fallback_modes ::
  "MetaKmsImplDevice \<Rightarrow> MetaKmsMode list" where
  "meta_kms_impl_device_copy_fallback_modes impl_dev = impl_fallback_modes impl_dev"

definition meta_kms_impl_device_get_caps :: "MetaKmsImplDevice \<Rightarrow> MetaKmsDeviceCaps" where
  "meta_kms_impl_device_get_caps impl_dev = impl_caps impl_dev"

definition meta_kms_impl_device_get_driver_name :: "MetaKmsImplDevice \<Rightarrow> string" where
  "meta_kms_impl_device_get_driver_name impl_dev = impl_driver_name impl_dev"

definition meta_kms_impl_device_get_driver_description :: "MetaKmsImplDevice \<Rightarrow> string" where
  "meta_kms_impl_device_get_driver_description impl_dev =
     impl_driver_description impl_dev"

definition meta_kms_impl_device_get_path :: "MetaKmsImplDevice \<Rightarrow> string" where
  "meta_kms_impl_device_get_path impl_dev = impl_path impl_dev"

text \<open>
  Modelled from the spec: \<^verbatim>\<open>meta_kms_impl_device_disable\<close> is defined in
  \<^verbatim>\<open>meta-kms-impl-device.c\<close>, which is not among the sources. The specification says
  that the backend relinquishes all display outputs (drops the modes, blanks the outputs)
  as a single action: afterwards no CRTC of the backend has a mode set.
\<close>

definition meta_kms_impl_device_disable :: "MetaKmsImplDevice \<Rightarrow> MetaKmsImplDevice" where
  "meta_kms_impl_device_disable impl_dev = impl_dev\<lparr>impl_active_modes := []\<rparr>"


text \<open>
  Modelled from the spec: \<^verbatim>\<open>meta_kms_impl_add_impl_device\<close> is defined in
  \<^verbatim>\<open>meta-kms-impl.c\<close>, which is not among the sources. The specification makes the
  privileged context the only holder of the backends; the call records the new backend
  with the impl and changes nothing else.
\<close>

definition meta_kms_impl_add_impl_device :: "MetaKms \<Rightarrow> MetaKmsImplDevice \<Rightarrow> MetaKms" where
  "meta_kms_impl_add_impl_device impl impl_dev =
     impl\<lparr>impl_devices := impl_dev # impl_devices impl\<rparr>"

subsection \<open>Disable\<close>

text \<open>
  The task of \<^verbatim>\<open>meta_kms_device_disable\<close>. Its \<^verbatim>\<open>user_data\<close> is the backend
  pointer of the device; the task never touches its error location.
\<close>

definition disable_device_in_impl ::
  "MetaKms \<Rightarrow> MetaKmsImplDevice option \<Rightarrow> bool \<Rightarrow>
   (bool \<times> GError option \<times> MetaKmsImplDevice option \<times> MetaKms) option" where
  "disable_device_in_impl impl user_data error =
     (case user_data of
        None \<Rightarrow> None
      | Some impl_dev \<Rightarrow>
          Some (True, None, Some (meta_kms_impl_device_disable impl_dev), impl))"

text \<open>
  \<^verbatim>\<open>meta_kms_device_disable\<close> returns nothing; the model returns the device and the
  context after the call, and \<open>None\<close> when the assertion fails or when the device
  has no backend for the task to dereference.
\<close>

definition meta_kms_device_disable ::
  "MetaKms \<Rightarrow> MetaKmsDevice \<Rightarrow> (MetaKmsDevice \<times> MetaKms) option" where
  "meta_kms_device_disable kms device =
     (if \<not> meta_assert_not_in_kms_impl kms then None
      else case meta_kms_run_impl_task_sync kms disable_device_in_impl
                  (impl_device device) False of
             None \<Rightarrow> None
           | Some (ret, err, impl_dev', kms') \<Rightarrow>
               Some (device\<lparr>impl_device := impl_dev'\<rparr>, kms'))"

subsection \<open>State refresh\<close>

text \<open>
  Modelled from the spec: \<^verbatim>\<open>META_KMS_UPDATE_CHANGE_NONE\<close> is declared in a header
  that is not among the sources; it is the empty change set of the bit set
  \<^verbatim>\<open>MetaKmsUpdateChanges\<close>.
\<close>

definition META_KMS_UPDATE_CHANGE_NONE :: MetaKmsUpdateChanges where
  "META_KMS_UPDATE_CHANGE_NONE = 0"

text \<open>
  \<^verbatim>\<open>meta_kms_device_update_states_in_impl\<close>. The backend's
  \<^verbatim>\<open>meta_kms_impl_device_update_states\<close> is the parameter \<open>update_states\<close>: it returns
  the change set and the backend after the refresh.
\<close>

definition meta_kms_device_update_states_in_impl ::
  "(MetaKmsImplDevice \<Rightarrow> uint32_t \<Rightarrow> uint32_t \<Rightarrow> MetaKmsUpdateChanges \<times> MetaKmsImplDevice) \<Rightarrow>
   MetaKms \<Rightarrow> MetaKmsDevice \<Rightarrow> uint32_t \<Rightarrow> uint32_t \<Rightarrow>
   (MetaKmsUpdateChanges \<times> MetaKmsDevice) option" where
  "meta_kms_device_update_states_in_impl update_states kms device crtc_id connector_id =
     (if \<not> meta_assert_in_kms_impl kms then None
      else if \<not> meta_assert_is_waiting_for_kms_impl_task kms then None
      else case meta_kms_device_get_impl_device device of
        None \<Rightarrow> None
      | Some impl_dev \<Rightarrow>
          (case update_states impl_dev crtc_id connector_id of
             (changes, impl_dev') \<Rightarrow>
               let device = device\<lparr>impl_device := Some impl_dev'\<rparr> in
               if changes = META_KMS_UPDATE_CHANGE_NONE then Some (changes, device)
               else
                 let device = device\<lparr>crtcs := meta_kms_impl_device_copy_crtcs impl_dev'\<rparr>;
                     device = device\<lparr>connectors :=
                                meta_kms_impl_device_copy_connectors impl_dev'\<rparr>;
                     device = device\<lparr>planes := meta_kms_impl_device_copy_planes impl_dev'\<rparr>
                 in Some (changes, device)))"

subsection \<open>Update submission\<close>





subsection \<open>Construction and backend selection\<close>

text \<open>
  \<^verbatim>\<open>CreateImplDeviceData\<close>: the payload of the construction task. Its \<^verbatim>\<open>device\<close>
  back pointer is only handed on to the backend's constructor and is left out.
\<close>

record CreateImplDeviceData =
  data_path :: string
  data_device_flags :: MetaKmsDeviceFlag
  out_impl_device :: "MetaKmsImplDevice option"
  out_crtcs :: "MetaKmsCrtc list"
  out_connectors :: "MetaKmsConnector list"
  out_planes :: "MetaKmsPlane list"
  out_caps :: MetaKmsDeviceCaps
  out_fallback_modes :: "MetaKmsMode list"
  out_driver_name :: string
  out_driver_description :: string
  out_path :: string

fun impl_device_type_to_string :: "GType \<Rightarrow> string" where
  "impl_device_type_to_string META_TYPE_KMS_IMPL_DEVICE_ATOMIC = ''atomic modesetting''"
| "impl_device_type_to_string META_TYPE_KMS_IMPL_DEVICE_SIMPLE = ''legacy modesetting''"
| "impl_device_type_to_string META_TYPE_KMS_IMPL_DEVICE_DUMMY = ''no modesetting''"

text \<open>The array \<^verbatim>\<open>impl_device_types\<close> of \<^verbatim>\<open>meta_create_kms_impl_device\<close>.\<close>

definition impl_device_types :: "GType list" where
  "impl_device_types = [META_TYPE_KMS_IMPL_DEVICE_ATOMIC, META_TYPE_KMS_IMPL_DEVICE_SIMPLE]"

text \<open>
  The \<^verbatim>\<open>for\<close> loop of \<^verbatim>\<open>meta_create_kms_impl_device\<close> over what is left of the array.
  The constructors of the three backends, reached through \<^verbatim>\<open>g_initable_new\<close>, are the
  parameter \<open>g_initable_new\<close>: given the type, the path and the flags it returns the
  new backend or the error of the failed construction. Every call is logged in
  \<open>initable_new_calls\<close>.
\<close>

fun try_impl_device_types ::
  "(GType \<Rightarrow> string \<Rightarrow> MetaKmsDeviceFlag \<Rightarrow> GError + MetaKmsImplDevice) \<Rightarrow>
   MetaKms \<Rightarrow> string \<Rightarrow> MetaKmsDeviceFlag \<Rightarrow> GType list \<Rightarrow>
   MetaKmsImplDevice option \<times> MetaKms" where
  "try_impl_device_types g_initable_new impl dev_path dev_flags [] = (None, impl)"
| "try_impl_device_types g_initable_new impl dev_path dev_flags (t # ts) =
     (let impl = impl\<lparr>initable_new_calls := initable_new_calls impl @ [t]\<rparr>
      in case g_initable_new t dev_path dev_flags of
           Inr impl_dev \<Rightarrow> (Some impl_dev, impl)
         | Inl local_error \<Rightarrow>
             try_impl_device_types g_initable_new
               (if domain local_error \<noteq> META_KMS_ERROR
                then g_warning (''Failed to open '' @ impl_device_type_to_string t @
                                '' backend: '' @ message local_error) impl
                else impl)
               dev_path dev_flags ts)"

text \<open>
  \<^verbatim>\<open>meta_create_kms_impl_device\<close>. The flag constant
  \<^verbatim>\<open>META_KMS_DEVICE_FLAG_NO_MODE_SETTING\<close> is declared in a header that is not among the
  sources; it is a parameter. The result is the backend (or \<^verbatim>\<open>NULL\<close>), what was
  stored in the error location, and the context.
\<close>

definition meta_create_kms_impl_device ::
  "MetaKmsDeviceFlag \<Rightarrow>
   (GType \<Rightarrow> string \<Rightarrow> MetaKmsDeviceFlag \<Rightarrow> GError + MetaKmsImplDevice) \<Rightarrow>
   MetaKms \<Rightarrow> string \<Rightarrow> MetaKmsDeviceFlag \<Rightarrow> bool \<Rightarrow>
   (MetaKmsImplDevice option \<times> GError option \<times> MetaKms) option" where
  "meta_create_kms_impl_device META_KMS_DEVICE_FLAG_NO_MODE_SETTING g_initable_new impl
       dev_path dev_flags error =
     (if \<not> meta_assert_in_kms_impl impl then None
      else if dev_flags AND META_KMS_DEVICE_FLAG_NO_MODE_SETTING \<noteq> 0 then
        (let impl = impl\<lparr>initable_new_calls :=
                      initable_new_calls impl @ [META_TYPE_KMS_IMPL_DEVICE_DUMMY]\<rparr>
         in case g_initable_new META_TYPE_KMS_IMPL_DEVICE_DUMMY dev_path dev_flags of
              Inr impl_dev \<Rightarrow> Some (Some impl_dev, None, impl)
            | Inl e \<Rightarrow> Some (None, g_propagate_error error e, impl))
      else
        (case try_impl_device_types g_initable_new impl dev_path dev_flags
                impl_device_types of
           (Some impl_dev, impl') \<Rightarrow> Some (Some impl_dev, None, impl')
         | (None, impl') \<Rightarrow>
             Some (None,
                   g_set_error error G_IO_ERROR G_IO_ERROR_FAILED
                     ''No suitable mode setting backend found'',
                   impl')))"

definition create_impl_device_in_impl ::
  "MetaKmsDeviceFlag \<Rightarrow>
   (GType \<Rightarrow> string \<Rightarrow> MetaKmsDeviceFlag \<Rightarrow> GError + MetaKmsImplDevice) \<Rightarrow>
   MetaKms \<Rightarrow> CreateImplDeviceData \<Rightarrow> bool \<Rightarrow>
   (bool \<times> GError option \<times> CreateImplDeviceData \<times> MetaKms) option" where
  "create_impl_device_in_impl META_KMS_DEVICE_FLAG_NO_MODE_SETTING g_initable_new impl
       user_data error =
     (let data = user_data
      in case meta_create_kms_impl_device META_KMS_DEVICE_FLAG_NO_MODE_SETTING g_initable_new
                impl (data_path data) (data_device_flags data) error of
           None \<Rightarrow> None
         | Some (None, err, impl') \<Rightarrow> Some (False, err, data, impl')
         | Some (Some impl_dev, err, impl') \<Rightarrow>
             Some (True, err,
                   data\<lparr>out_impl_device := Some impl_dev,
                        out_crtcs := meta_kms_impl_device_copy_crtcs impl_dev,
                        out_connectors := meta_kms_impl_device_copy_connectors impl_dev,
                        out_planes := meta_kms_impl_device_copy_planes impl_dev,
                        out_caps := meta_kms_impl_device_get_caps impl_dev,
                        out_fallback_modes := meta_kms_impl_device_copy_fallback_modes impl_dev,
                        out_driver_name := meta_kms_impl_device_get_driver_name impl_dev,
                        out_driver_description :=
                          meta_kms_impl_device_get_driver_description impl_dev,
                        out_path := meta_kms_impl_device_get_path impl_dev\<rparr>,
                   meta_kms_impl_add_impl_device impl' impl_dev))"

text \<open>
  The device as \<^verbatim>\<open>g_object_new\<close> returns it: \<^verbatim>\<open>meta_kms_device_init\<close> is empty, so
  every field is zero.
\<close>

definition meta_kms_device_init :: MetaKmsDevice where
  "meta_kms_device_init =
     \<lparr>impl_device = None, flags = 0, path = [], driver_name = [], driver_description = [],
      crtcs = [], connectors = [], planes = [],
      caps = \<lparr>has_cursor_size = False, cursor_width = 0, cursor_height = 0,
              prefers_shadow_buffer = False, uses_monotonic_clock = False,
              addfb2_modifiers = False\<rparr>,
      fallback_modes = []\<rparr>"

text \<open>
  \<^verbatim>\<open>meta_kms_device_new\<close>. \<^verbatim>\<open>META_KMS_DEVICE_FLAG_HAS_ADDFB2\<close> is the second flag
  constant taken as a parameter. The result is the device (or \<^verbatim>\<open>NULL\<close>), what was
  stored in the caller's error location, and the context. On failure
  \<^verbatim>\<open>g_object_unref\<close> drops the only reference to the new device, whose backend
  pointer is still \<^verbatim>\<open>NULL\<close>, so its finalizer dispatches nothing.
\<close>

definition meta_kms_device_new ::
  "MetaKmsDeviceFlag \<Rightarrow> MetaKmsDeviceFlag \<Rightarrow>
   (GType \<Rightarrow> string \<Rightarrow> MetaKmsDeviceFlag \<Rightarrow> GError + MetaKmsImplDevice) \<Rightarrow>
   MetaKms \<Rightarrow> string \<Rightarrow> MetaKmsDeviceFlag \<Rightarrow> bool \<Rightarrow>
   (MetaKmsDevice option \<times> GError option \<times> MetaKms) option" where
  "meta_kms_device_new META_KMS_DEVICE_FLAG_NO_MODE_SETTING META_KMS_DEVICE_FLAG_HAS_ADDFB2
       g_initable_new kms dev_path dev_flags error =
     (let device = meta_kms_device_init;
          data = \<lparr>data_path = dev_path, data_device_flags = dev_flags,
                  out_impl_device = None, out_crtcs = [], out_connectors = [],
                  out_planes = [], out_caps = caps meta_kms_device_init,
                  out_fallback_modes = [], out_driver_name = [],
                  out_driver_description = [], out_path = []\<rparr>
      in case meta_kms_run_impl_task_sync kms
                (create_impl_device_in_impl META_KMS_DEVICE_FLAG_NO_MODE_SETTING g_initable_new)
                data error of
           None \<Rightarrow> None
         | Some (ret, err, data, kms') \<Rightarrow>
             if \<not> ret then Some (None, err, kms')
             else
               let device = device\<lparr>impl_device := out_impl_device data\<rparr>;
                   device = device\<lparr>flags := dev_flags\<rparr>;
                   device = device\<lparr>path := dev_path\<rparr>;
                   device = device\<lparr>crtcs := out_crtcs data\<rparr>;
                   device = device\<lparr>connectors := out_connectors data\<rparr>;
                   device = device\<lparr>planes := out_planes data\<rparr>;
                   device = device\<lparr>caps := out_caps data\<rparr>;
                   device = device\<lparr>fallback_modes := out_fallback_modes data\<rparr>;
                   device = device\<lparr>driver_name := out_driver_name data\<rparr>;
                   device = device\<lparr>driver_description := out_driver_description data\<rparr>;
                   device = device\<lparr>path := out_path data\<rparr>;
                   device = (if addfb2_modifiers (caps device)
                             then device\<lparr>flags := flags device OR
                                                    META_KMS_DEVICE_FLAG_HAS_ADDFB2\<rparr>
                             else device)
               in Some (Some device, err, kms'))"

subsection \<open>What construction is specified to yield\<close>

text \<open>
  The backend that the selection is specified to adopt: the first type, in priority order,
  whose construction succeeds. With the no-mode-setting flag the only type is Dummy,
  otherwise the types are Atomic, then Simple.
\<close>

definition adopted_backend ::
  "MetaKmsDeviceFlag \<Rightarrow>
   (GType \<Rightarrow> string \<Rightarrow> MetaKmsDeviceFlag \<Rightarrow> GError + MetaKmsImplDevice) \<Rightarrow>
   string \<Rightarrow> MetaKmsDeviceFlag \<Rightarrow> MetaKmsImplDevice option" where
  "adopted_backend META_KMS_DEVICE_FLAG_NO_MODE_SETTING g_initable_new dev_path dev_flags =
     (case List.find (\<lambda>t. \<not> isl (g_initable_new t dev_path dev_flags))
             (if dev_flags AND META_KMS_DEVICE_FLAG_NO_MODE_SETTING \<noteq> 0
              then [META_TYPE_KMS_IMPL_DEVICE_DUMMY]
              else impl_device_types) of
        None \<Rightarrow> None
      | Some t \<Rightarrow> Some (projr (g_initable_new t dev_path dev_flags)))"

text \<open>The device that mirrors a backend, for the flags the caller asked for.\<close>

definition device_of_backend ::
  "MetaKmsDeviceFlag \<Rightarrow> MetaKmsDeviceFlag \<Rightarrow> MetaKmsImplDevice \<Rightarrow> MetaKmsDevice" where
  "device_of_backend META_KMS_DEVICE_FLAG_HAS_ADDFB2 dev_flags impl_dev =
     \<lparr>impl_device = Some impl_dev,
      flags = (if addfb2_modifiers (impl_caps impl_dev)
               then dev_flags OR META_KMS_DEVICE_FLAG_HAS_ADDFB2 else dev_flags),
      path = impl_path impl_dev,
      driver_name = impl_driver_name impl_dev,
      driver_description = impl_driver_description impl_dev,
      crtcs = impl_crtcs impl_dev,
      connectors = impl_connectors impl_dev,
      planes = impl_planes impl_dev,
      caps = impl_caps impl_dev,
      fallback_modes = impl_fallback_modes impl_dev\<rparr>"

subsection \<open>A fixture topology\<close>

text \<open>
  One CRTC, one connector and four planes: a cursor plane, a primary plane that cannot
  drive the CRTC, and two primary planes that can. The usability predicate of the fixture
  is the intersection of the plane's mask of possible CRTCs with the bit of the CRTC's
  index. The flag constants used with the fixture are
  \<^verbatim>\<open>META_KMS_DEVICE_FLAG_NO_MODE_SETTING = 1 << 4\<close> and
  \<^verbatim>\<open>META_KMS_DEVICE_FLAG_HAS_ADDFB2 = 1 << 5\<close>.
\<close>

definition fixture_is_usable_with :: "MetaKmsPlane \<Rightarrow> MetaKmsCrtc \<Rightarrow> bool" where
  "fixture_is_usable_with plane crtc =
     (possible_crtcs plane AND push_bit (kms_crtc_idx crtc) 1 \<noteq> 0)"

definition fixture_crtc :: MetaKmsCrtc where
  "fixture_crtc = \<lparr>kms_crtc_id = 50, kms_crtc_idx = 0\<rparr>"

definition fixture_planes :: "MetaKmsPlane list" where
  "fixture_planes =
     [\<lparr>kms_plane_id = 40, plane_type = META_KMS_PLANE_TYPE_CURSOR, possible_crtcs = 1\<rparr>,
      \<lparr>kms_plane_id = 41, plane_type = META_KMS_PLANE_TYPE_PRIMARY, possible_crtcs = 2\<rparr>,
      \<lparr>kms_plane_id = 42, plane_type = META_KMS_PLANE_TYPE_PRIMARY, possible_crtcs = 1\<rparr>,
      \<lparr>kms_plane_id = 43, plane_type = META_KMS_PLANE_TYPE_PRIMARY, possible_crtcs = 3\<rparr>]"

definition fixture_caps :: MetaKmsDeviceCaps where
  "fixture_caps =
     \<lparr>has_cursor_size = True, cursor_width = 64, cursor_height = 64,
      prefers_shadow_buffer = False, uses_monotonic_clock = True,
      addfb2_modifiers = True\<rparr>"

definition fixture_impl_device :: MetaKmsImplDevice where
  "fixture_impl_device =
     \<lparr>impl_type = META_TYPE_KMS_IMPL_DEVICE_SIMPLE,
      impl_path = ''/dev/dri/card0'',
      impl_driver_name = ''i915'',
      impl_driver_description = ''Intel Graphics'',
      impl_crtcs = [fixture_crtc],
      impl_connectors = [\<lparr>kms_connector_id = 60\<rparr>],
      impl_planes = fixture_planes,
      impl_caps = fixture_caps,
      impl_fallback_modes = [],
      impl_active_modes = [(50, 7)]\<rparr>"

text \<open>The same backend on a driver without framebuffer modifiers.\<close>

definition fixture_impl_device_plain :: MetaKmsImplDevice where
  "fixture_impl_device_plain =
     fixture_impl_device\<lparr>impl_caps := fixture_caps\<lparr>addfb2_modifiers := False\<rparr>\<rparr>"

definition fixture_kms :: MetaKms where
  "fixture_kms =
     \<lparr>in_impl_task = False, waiting_for_impl_task = False, impl_devices = [],
      initable_new_calls = [], warnings = []\<rparr>"

text \<open>
  Three sets of constructors: a kernel that refuses atomic mode setting (a domain error)
  and accepts the legacy one; a driver without framebuffer modifiers, on which every
  construction succeeds; and a device node on which nothing can be constructed (a domain
  error for Atomic, an error of another domain for the rest).
\<close>

fun fixture_g_initable_new ::
  "GType \<Rightarrow> string \<Rightarrow> MetaKmsDeviceFlag \<Rightarrow> GError + MetaKmsImplDevice" where
  "fixture_g_initable_new META_TYPE_KMS_IMPL_DEVICE_ATOMIC dev_path dev_flags =
     Inl \<lparr>domain = META_KMS_ERROR, code = 0, message = ''atomic refused''\<rparr>"
| "fixture_g_initable_new META_TYPE_KMS_IMPL_DEVICE_SIMPLE dev_path dev_flags =
     Inr fixture_impl_device"
| "fixture_g_initable_new META_TYPE_KMS_IMPL_DEVICE_DUMMY dev_path dev_flags =
     Inr (fixture_impl_device\<lparr>impl_type := META_TYPE_KMS_IMPL_DEVICE_DUMMY\<rparr>)"

fun fixture_g_initable_new_plain ::
  "GType \<Rightarrow> string \<Rightarrow> MetaKmsDeviceFlag \<Rightarrow> GError + MetaKmsImplDevice" where
  "fixture_g_initable_new_plain t dev_path dev_flags = Inr fixture_impl_device_plain"

fun fixture_g_initable_new_failing ::
  "GType \<Rightarrow> string \<Rightarrow> MetaKmsDeviceFlag \<Rightarrow> GError + MetaKmsImplDevice" where
  "fixture_g_initable_new_failing META_TYPE_KMS_IMPL_DEVICE_ATOMIC dev_path dev_flags =
     Inl \<lparr>domain = META_KMS_ERROR, code = 0, message = ''atomic refused''\<rparr>"
| "fixture_g_initable_new_failing t dev_path dev_flags =
     Inl \<lparr>domain = OTHER_DOMAIN 1, code = 13, message = ''Permission denied''\<rparr>"



text \<open>
  Two refreshes for the fixture: a hot-plug that adds a connector and reports a change,
  and a notification that changes nothing.
\<close>

definition fixture_update_states_hotplug ::
  "MetaKmsImplDevice \<Rightarrow> uint32_t \<Rightarrow> uint32_t \<Rightarrow> MetaKmsUpdateChanges \<times> MetaKmsImplDevice" where
  "fixture_update_states_hotplug impl_dev crtc_id connector_id =
     (1, impl_dev\<lparr>impl_connectors :=
                     impl_connectors impl_dev @ [\<lparr>kms_connector_id = connector_id\<rparr>]\<rparr>)"

definition fixture_update_states_quiet ::
  "MetaKmsImplDevice \<Rightarrow> uint32_t \<Rightarrow> uint32_t \<Rightarrow> MetaKmsUpdateChanges \<times> MetaKmsImplDevice" where
  "fixture_update_states_quiet impl_dev crtc_id connector_id =
     (META_KMS_UPDATE_CHANGE_NONE, impl_dev)"

text \<open>
  The device that construction yields on the fixture, and the context while a task runs.
\<close>

definition fixture_device :: MetaKmsDevice where
  "fixture_device = device_of_backend 32 0 fixture_impl_device"

definition fixture_kms_in_impl :: MetaKms where
  "fixture_kms_in_impl = fixture_kms\<lparr>in_impl_task := True, waiting_for_impl_task := True\<rparr>"

section \<open>Properties\<close>

subsection \<open>The selection loop\<close>

lemma try_impl_device_types_calls:
  "initable_new_calls (snd (try_impl_device_types g_initable_new impl dev_path dev_flags ts)) =
     initable_new_calls impl @
       take (Suc (length (takeWhile (\<lambda>t. isl (g_initable_new t dev_path dev_flags)) ts))) ts"
proof (induction ts arbitrary: impl)
  case Nil
  then show ?case by simp
next
  case (Cons t ts)
  show ?case
  proof (cases "g_initable_new t dev_path dev_flags")
    case (Inl local_error)
    then show ?thesis
      by (simp add: Cons.IH Let_def g_warning_def)
  next
    case (Inr impl_dev)
    then show ?thesis by (simp add: Let_def)
  qed
qed

lemma try_impl_device_types_result:
  "fst (try_impl_device_types g_initable_new impl dev_path dev_flags ts) =
     (case List.find (\<lambda>t. \<not> isl (g_initable_new t dev_path dev_flags)) ts of
        None \<Rightarrow> None
      | Some t \<Rightarrow> Some (projr (g_initable_new t dev_path dev_flags)))"
  by (induction ts arbitrary: impl) (auto simp: Let_def split: sum.splits)

text \<open>
  Every unexpected failure, and no domain failure, leaves a warning: the loop warns once
  for each failed type whose error is outside \<open>META_KMS_ERROR\<close>.
\<close>

lemma try_impl_device_types_warnings:
  "warnings (snd (try_impl_device_types g_initable_new impl dev_path dev_flags ts)) =
     warnings impl @
       map (\<lambda>t. ''Failed to open '' @ impl_device_type_to_string t @ '' backend: '' @
                 message (projl (g_initable_new t dev_path dev_flags)))
         (filter (\<lambda>t. domain (projl (g_initable_new t dev_path dev_flags)) \<noteq> META_KMS_ERROR)
            (takeWhile (\<lambda>t. isl (g_initable_new t dev_path dev_flags)) ts))"
proof (induction ts arbitrary: impl)
  case Nil
  then show ?case by simp
next
  case (Cons t ts)
  show ?case
  proof (cases "g_initable_new t dev_path dev_flags")
    case (Inl local_error)
    then show ?thesis
      by (simp add: Cons.IH Let_def g_warning_def)
  next
    case (Inr impl_dev)
    then show ?thesis by (simp add: Let_def)
  qed
qed

subsection \<open>Selection inside the privileged context\<close>

lemma meta_create_kms_impl_device_dummy:
  assumes "in_impl_task impl" and "dev_flags AND NMS \<noteq> 0"
  shows "meta_create_kms_impl_device NMS g_initable_new impl dev_path dev_flags error =
           Some (case g_initable_new META_TYPE_KMS_IMPL_DEVICE_DUMMY dev_path dev_flags of
                   Inr impl_dev \<Rightarrow> Some impl_dev | Inl e \<Rightarrow> None,
                 case g_initable_new META_TYPE_KMS_IMPL_DEVICE_DUMMY dev_path dev_flags of
                   Inr impl_dev \<Rightarrow> None | Inl e \<Rightarrow> g_propagate_error error e,
                 impl\<lparr>initable_new_calls :=
                   initable_new_calls impl @ [META_TYPE_KMS_IMPL_DEVICE_DUMMY]\<rparr>)"
  using assms by (simp add: meta_create_kms_impl_device_def Let_def split: sum.splits)

lemma meta_create_kms_impl_device_loop:
  assumes "in_impl_task impl" and "dev_flags AND NMS = 0"
  shows "meta_create_kms_impl_device NMS g_initable_new impl dev_path dev_flags error =
           Some (fst (try_impl_device_types g_initable_new impl dev_path dev_flags
                        impl_device_types),
                 if fst (try_impl_device_types g_initable_new impl dev_path dev_flags
                           impl_device_types) = None
                 then g_set_error error G_IO_ERROR G_IO_ERROR_FAILED
                        ''No suitable mode setting backend found''
                 else None,
                 snd (try_impl_device_types g_initable_new impl dev_path dev_flags
                        impl_device_types))"
  using assms
  by (simp add: meta_create_kms_impl_device_def split: prod.splits option.splits)

lemma meta_create_kms_impl_device_calls:
  assumes "in_impl_task impl"
  shows "\<exists>err impl'.
           meta_create_kms_impl_device NMS g_initable_new impl dev_path dev_flags error =
             Some (adopted_backend NMS g_initable_new dev_path dev_flags, err, impl') \<and>
           initable_new_calls impl' = initable_new_calls impl @
             (if dev_flags AND NMS \<noteq> 0 then [META_TYPE_KMS_IMPL_DEVICE_DUMMY]
              else if isl (g_initable_new META_TYPE_KMS_IMPL_DEVICE_ATOMIC dev_path dev_flags)
              then [META_TYPE_KMS_IMPL_DEVICE_ATOMIC, META_TYPE_KMS_IMPL_DEVICE_SIMPLE]
              else [META_TYPE_KMS_IMPL_DEVICE_ATOMIC])"
proof (cases "dev_flags AND NMS = 0")
  case True
  have calls:
    "initable_new_calls (snd (try_impl_device_types g_initable_new impl dev_path dev_flags
                                impl_device_types)) =
       initable_new_calls impl @
         (if isl (g_initable_new META_TYPE_KMS_IMPL_DEVICE_ATOMIC dev_path dev_flags)
          then [META_TYPE_KMS_IMPL_DEVICE_ATOMIC, META_TYPE_KMS_IMPL_DEVICE_SIMPLE]
          else [META_TYPE_KMS_IMPL_DEVICE_ATOMIC])"
    unfolding try_impl_device_types_calls by (simp add: impl_device_types_def)
  have res:
    "fst (try_impl_device_types g_initable_new impl dev_path dev_flags impl_device_types) =
       adopted_backend NMS g_initable_new dev_path dev_flags"
    unfolding try_impl_device_types_result adopted_backend_def using True by simp
  show ?thesis
    using True calls res
    by (simp add: meta_create_kms_impl_device_loop [OF assms True])
next
  case False
  show ?thesis
    using False
    by (simp add: meta_create_kms_impl_device_dummy [OF assms False] adopted_backend_def
        split: sum.splits)
qed

subsection \<open>Construction through the dispatcher\<close>

lemma meta_kms_device_new_unfold:
  assumes "meta_create_kms_impl_device NMS g_initable_new
             (kms\<lparr>in_impl_task := True, waiting_for_impl_task := True\<rparr>)
             dev_path dev_flags error = Some (b, err, impl')"
  shows "meta_kms_device_new NMS HAS g_initable_new kms dev_path dev_flags error =
           Some (map_option (device_of_backend HAS dev_flags) b, err,
                 (case b of None \<Rightarrow> impl'
                  | Some impl_dev \<Rightarrow> meta_kms_impl_add_impl_device impl' impl_dev)
                 \<lparr>waiting_for_impl_task := False, in_impl_task := False\<rparr>)"
  using assms
  by (cases b)
    (simp_all add: meta_kms_device_new_def meta_kms_run_impl_task_sync_def
      create_impl_device_in_impl_def Let_def meta_kms_device_init_def device_of_backend_def
      meta_kms_impl_device_copy_crtcs_def meta_kms_impl_device_copy_connectors_def
      meta_kms_impl_device_copy_planes_def meta_kms_impl_device_copy_fallback_modes_def
      meta_kms_impl_device_get_caps_def meta_kms_impl_device_get_driver_name_def
      meta_kms_impl_device_get_driver_description_def meta_kms_impl_device_get_path_def)

lemma meta_kms_device_new_returns:
  "\<exists>err kms'.
     meta_kms_device_new NMS HAS g_initable_new kms dev_path dev_flags error =
       Some (map_option (device_of_backend HAS dev_flags)
               (adopted_backend NMS g_initable_new dev_path dev_flags), err, kms') \<and>
     initable_new_calls kms' = initable_new_calls kms @
       (if dev_flags AND NMS \<noteq> 0 then [META_TYPE_KMS_IMPL_DEVICE_DUMMY]
        else if isl (g_initable_new META_TYPE_KMS_IMPL_DEVICE_ATOMIC dev_path dev_flags)
        then [META_TYPE_KMS_IMPL_DEVICE_ATOMIC, META_TYPE_KMS_IMPL_DEVICE_SIMPLE]
        else [META_TYPE_KMS_IMPL_DEVICE_ATOMIC])"
proof -
  let ?impl = "kms\<lparr>in_impl_task := True, waiting_for_impl_task := True\<rparr>"
  have "in_impl_task ?impl" by simp
  from meta_create_kms_impl_device_calls [OF this, of NMS g_initable_new dev_path dev_flags error]
  obtain err impl' where
    c: "meta_create_kms_impl_device NMS g_initable_new ?impl dev_path dev_flags error =
          Some (adopted_backend NMS g_initable_new dev_path dev_flags, err, impl')"
    and l: "initable_new_calls impl' = initable_new_calls ?impl @
       (if dev_flags AND NMS \<noteq> 0 then [META_TYPE_KMS_IMPL_DEVICE_DUMMY]
        else if isl (g_initable_new META_TYPE_KMS_IMPL_DEVICE_ATOMIC dev_path dev_flags)
        then [META_TYPE_KMS_IMPL_DEVICE_ATOMIC, META_TYPE_KMS_IMPL_DEVICE_SIMPLE]
        else [META_TYPE_KMS_IMPL_DEVICE_ATOMIC])"
    by blast
  show ?thesis
    unfolding meta_kms_device_new_unfold [OF c]
    using l by (simp add: meta_kms_impl_add_impl_device_def split: option.splits)
qed

text \<open>
  With the no-mode-setting flag a failure of the Dummy backend ends the construction with
  the backend's own error.
\<close>

lemma dummy_failure_is_fatal:
  assumes "dev_flags AND NMS \<noteq> 0"
    and "g_initable_new META_TYPE_KMS_IMPL_DEVICE_DUMMY dev_path dev_flags = Inl e"
  shows "\<exists>kms'.
           meta_kms_device_new NMS HAS g_initable_new kms dev_path dev_flags error =
             Some (None, if error then Some e else None, kms')"
proof -
  let ?impl = "kms\<lparr>in_impl_task := True, waiting_for_impl_task := True\<rparr>"
  have i: "in_impl_task ?impl" by simp
  show ?thesis
    unfolding meta_kms_device_new_unfold
      [OF meta_create_kms_impl_device_dummy [OF i assms(1)]]
    using assms(2) by (simp add: g_propagate_error_def)
qed

subsection \<open>The plane scan\<close>

lemma scan_planes_find:
  "scan_planes is_usable_with l crtc type =
     List.find (\<lambda>plane. plane_type plane = type \<and> is_usable_with plane crtc) l"
  by (induction l) auto

section \<open>The claims\<close>

text \<open>
  C1: every call of \<^verbatim>\<open>meta_kms_device_new\<close> returns, and the backend types it hands to
  \<^verbatim>\<open>g_initable_new\<close> are: Dummy alone when the no-mode-setting flag is set; otherwise
  Atomic first, and then Simple exactly when the construction of Atomic failed, whatever
  the domain of its error. The backend bound to the device is the first one, in that
  order, whose construction succeeded.
\<close>

theorem backend_selection_priority_order:
  "\<exists>r err kms'.
     meta_kms_device_new NMS HAS g_initable_new kms dev_path dev_flags error =
       Some (r, err, kms') \<and>
     initable_new_calls kms' = initable_new_calls kms @
       (if dev_flags AND NMS \<noteq> 0 then [META_TYPE_KMS_IMPL_DEVICE_DUMMY]
        else if isl (g_initable_new META_TYPE_KMS_IMPL_DEVICE_ATOMIC dev_path dev_flags)
        then [META_TYPE_KMS_IMPL_DEVICE_ATOMIC, META_TYPE_KMS_IMPL_DEVICE_SIMPLE]
        else [META_TYPE_KMS_IMPL_DEVICE_ATOMIC]) \<and>
     map_option impl_device r =
       map_option Some (adopted_backend NMS g_initable_new dev_path dev_flags)"
proof -
  from meta_kms_device_new_returns [of NMS HAS g_initable_new kms dev_path dev_flags error]
  obtain err kms' where
    "meta_kms_device_new NMS HAS g_initable_new kms dev_path dev_flags error =
       Some (map_option (device_of_backend HAS dev_flags)
               (adopted_backend NMS g_initable_new dev_path dev_flags), err, kms')"
    and "initable_new_calls kms' = initable_new_calls kms @
       (if dev_flags AND NMS \<noteq> 0 then [META_TYPE_KMS_IMPL_DEVICE_DUMMY]
        else if isl (g_initable_new META_TYPE_KMS_IMPL_DEVICE_ATOMIC dev_path dev_flags)
        then [META_TYPE_KMS_IMPL_DEVICE_ATOMIC, META_TYPE_KMS_IMPL_DEVICE_SIMPLE]
        else [META_TYPE_KMS_IMPL_DEVICE_ATOMIC])"
    by blast
  then show ?thesis
    by (simp add: option.map_comp comp_def device_of_backend_def)
qed

theorem backend_selection_priority_order_witness:
  "\<exists>r err kms'.
     meta_kms_device_new 16 32 fixture_g_initable_new fixture_kms ''/dev/dri/card0'' 0 True =
       Some (r, err, kms') \<and>
     initable_new_calls kms' =
       [META_TYPE_KMS_IMPL_DEVICE_ATOMIC, META_TYPE_KMS_IMPL_DEVICE_SIMPLE] \<and>
     map_option impl_device r = Some (Some fixture_impl_device)"
  using backend_selection_priority_order
    [where NMS = 16 and HAS = 32 and g_initable_new = fixture_g_initable_new
       and kms = fixture_kms and dev_path = "''/dev/dri/card0''" and dev_flags = 0
       and error = True]
  by (simp add: adopted_backend_def impl_device_types_def fixture_kms_def)

text \<open>
  C2: when the no-mode-setting flag is clear and the constructions of both candidates,
  Atomic and Simple, fail, \<^verbatim>\<open>meta_kms_device_new\<close> returns no device, and the one error
  stored in the caller's error location is \<^verbatim>\<open>G_IO_ERROR_FAILED\<close> "No suitable mode
  setting backend found".
\<close>

theorem no_suitable_backend_when_all_candidates_fail:
  assumes "dev_flags AND NMS = 0"
    and "g_initable_new META_TYPE_KMS_IMPL_DEVICE_ATOMIC dev_path dev_flags = Inl e1"
    and "g_initable_new META_TYPE_KMS_IMPL_DEVICE_SIMPLE dev_path dev_flags = Inl e2"
  shows "\<exists>kms'.
           meta_kms_device_new NMS HAS g_initable_new kms dev_path dev_flags error =
             Some (None,
                   if error
                   then Some \<lparr>domain = G_IO_ERROR, code = G_IO_ERROR_FAILED,
                              message = ''No suitable mode setting backend found''\<rparr>
                   else None,
                   kms')"
proof -
  let ?impl = "kms\<lparr>in_impl_task := True, waiting_for_impl_task := True\<rparr>"
  have i: "in_impl_task ?impl" by simp
  have n: "fst (try_impl_device_types g_initable_new ?impl dev_path dev_flags
                  impl_device_types) = None"
    unfolding try_impl_device_types_result using assms(2,3)
    by (simp add: impl_device_types_def)
  have c: "meta_create_kms_impl_device NMS g_initable_new ?impl dev_path dev_flags error =
             Some (None,
                   g_set_error error G_IO_ERROR G_IO_ERROR_FAILED
                     ''No suitable mode setting backend found'',
                   snd (try_impl_device_types g_initable_new ?impl dev_path dev_flags
                          impl_device_types))"
    using meta_create_kms_impl_device_loop [OF i assms(1), of g_initable_new dev_path error] n
    by simp
  show ?thesis
    unfolding meta_kms_device_new_unfold [OF c]
    by (simp add: g_set_error_def g_propagate_error_def)
qed

theorem no_suitable_backend_when_all_candidates_fail_witness:
  "\<exists>kms'.
     meta_kms_device_new 16 32 fixture_g_initable_new_failing fixture_kms
         ''/dev/dri/card0'' 0 True =
       Some (None,
             Some \<lparr>domain = G_IO_ERROR, code = G_IO_ERROR_FAILED,
                   message = ''No suitable mode setting backend found''\<rparr>,
             kms')"
  using no_suitable_backend_when_all_candidates_fail
    [where NMS = 16 and HAS = 32 and g_initable_new = fixture_g_initable_new_failing
       and kms = fixture_kms and dev_path = "''/dev/dri/card0''" and dev_flags = 0
       and error = True]
  by simp

text \<open>
  C3: when \<^verbatim>\<open>meta_kms_device_update_states_in_impl\<close> runs in the privileged context
  and the backend reports a change set other than \<^verbatim>\<open>META_KMS_UPDATE_CHANGE_NONE\<close>, the
  call returns that change set and each of the three cached sequences of the device is
  the backend's sequence after the refresh; nothing of the old sequences is kept.
\<close>

theorem update_states_replaces_all_three_caches:
  assumes "in_impl_task kms" and "waiting_for_impl_task kms"
    and "impl_device device = Some impl_dev"
    and "update_states impl_dev crtc_id connector_id = (changes, impl_dev')"
    and "changes \<noteq> META_KMS_UPDATE_CHANGE_NONE"
  shows "meta_kms_device_update_states_in_impl update_states kms device crtc_id connector_id =
           Some (changes,
                 device\<lparr>impl_device := Some impl_dev',
                        crtcs := impl_crtcs impl_dev',
                        connectors := impl_connectors impl_dev',
                        planes := impl_planes impl_dev'\<rparr>)"
  using assms
  by (simp add: meta_kms_device_update_states_in_impl_def meta_kms_device_get_impl_device_def
      meta_kms_impl_device_copy_crtcs_def meta_kms_impl_device_copy_connectors_def
      meta_kms_impl_device_copy_planes_def)

theorem update_states_replaces_all_three_caches_witness:
  "meta_kms_device_update_states_in_impl fixture_update_states_hotplug fixture_kms_in_impl
       fixture_device 50 61 =
     Some (1,
           fixture_device
             \<lparr>impl_device := Some (fixture_impl_device
                 \<lparr>impl_connectors := [\<lparr>kms_connector_id = 60\<rparr>, \<lparr>kms_connector_id = 61\<rparr>]\<rparr>),
              crtcs := [fixture_crtc],
              connectors := [\<lparr>kms_connector_id = 60\<rparr>, \<lparr>kms_connector_id = 61\<rparr>],
              planes := fixture_planes\<rparr>)"
  using update_states_replaces_all_three_caches
    [where kms = fixture_kms_in_impl and device = fixture_device
       and impl_dev = fixture_impl_device
       and update_states = fixture_update_states_hotplug
       and crtc_id = 50 and connector_id = 61 and changes = 1
       and impl_dev' = "fixture_impl_device
             \<lparr>impl_connectors := [\<lparr>kms_connector_id = 60\<rparr>, \<lparr>kms_connector_id = 61\<rparr>]\<rparr>"]
  by (simp add: fixture_kms_in_impl_def fixture_device_def device_of_backend_def
      fixture_update_states_hotplug_def fixture_impl_device_def
      META_KMS_UPDATE_CHANGE_NONE_def)

text \<open>
  C4: when \<^verbatim>\<open>meta_kms_device_update_states_in_impl\<close> runs in the privileged context
  and the backend reports \<^verbatim>\<open>META_KMS_UPDATE_CHANGE_NONE\<close>, the call returns the empty
  change set and the cached crtcs, connectors and planes of the device are those it had
  before the call, as is every other field the device keeps for itself.
\<close>

theorem update_states_none_keeps_caches:
  assumes "in_impl_task kms" and "waiting_for_impl_task kms"
    and "impl_device device = Some impl_dev"
    and "update_states impl_dev crtc_id connector_id =
           (META_KMS_UPDATE_CHANGE_NONE, impl_dev')"
  shows "\<exists>device'.
           meta_kms_device_update_states_in_impl update_states kms device crtc_id
               connector_id =
             Some (META_KMS_UPDATE_CHANGE_NONE, device') \<and>
           device' = device\<lparr>impl_device := Some impl_dev'\<rparr> \<and>
           crtcs device' = crtcs device \<and>
           connectors device' = connectors device \<and>
           planes device' = planes device"
  using assms
  by (simp add: meta_kms_device_update_states_in_impl_def meta_kms_device_get_impl_device_def)

theorem update_states_none_keeps_caches_witness:
  "meta_kms_device_update_states_in_impl fixture_update_states_quiet fixture_kms_in_impl
       (fixture_device\<lparr>connectors := []\<rparr>) 50 60 =
     Some (META_KMS_UPDATE_CHANGE_NONE, fixture_device\<lparr>connectors := []\<rparr>)"
  using update_states_none_keeps_caches
    [where kms = fixture_kms_in_impl and device = "fixture_device\<lparr>connectors := []\<rparr>"
       and impl_dev = fixture_impl_device
       and update_states = fixture_update_states_quiet
       and crtc_id = 50 and connector_id = 60 and impl_dev' = fixture_impl_device]
  by (simp add: fixture_kms_in_impl_def fixture_device_def device_of_backend_def
      fixture_update_states_quiet_def fixture_kms_def)




text \<open>
  C6: \<^verbatim>\<open>get_plane_with_type_for\<close> returns a plane exactly when that plane is the
  first one in the cached plane sequence that has the requested type and is usable with
  the CRTC, and returns \<^verbatim>\<open>NULL\<close> exactly when the sequence has no such plane; it has no
  error result. The primary and the cursor query are this scan for the two types.
\<close>

theorem get_plane_with_type_for_first_usable:
  "(get_plane_with_type_for is_usable_with device crtc type = Some plane \<longleftrightarrow>
      (\<exists>i < length (planes device).
          planes device ! i = plane \<and> plane_type plane = type \<and> is_usable_with plane crtc \<and>
          (\<forall>j < i. \<not> (plane_type (planes device ! j) = type \<and>
                       is_usable_with (planes device ! j) crtc)))) \<and>
   (get_plane_with_type_for is_usable_with device crtc type = None \<longleftrightarrow>
      (\<forall>p \<in> set (planes device). \<not> (plane_type p = type \<and> is_usable_with p crtc))) \<and>
   meta_kms_device_get_primary_plane_for is_usable_with device crtc =
     get_plane_with_type_for is_usable_with device crtc META_KMS_PLANE_TYPE_PRIMARY \<and>
   meta_kms_device_get_cursor_plane_for is_usable_with device crtc =
     get_plane_with_type_for is_usable_with device crtc META_KMS_PLANE_TYPE_CURSOR"
  unfolding get_plane_with_type_for_def meta_kms_device_get_planes_def scan_planes_find
    meta_kms_device_get_primary_plane_for_def meta_kms_device_get_cursor_plane_for_def
  by (auto simp: find_Some_iff find_None_iff)

theorem get_plane_with_type_for_first_usable_witness:
  "meta_kms_device_get_primary_plane_for fixture_is_usable_with fixture_device fixture_crtc =
     Some \<lparr>kms_plane_id = 42, plane_type = META_KMS_PLANE_TYPE_PRIMARY, possible_crtcs = 1\<rparr> \<and>
   get_plane_with_type_for fixture_is_usable_with fixture_device fixture_crtc
     META_KMS_PLANE_TYPE_OVERLAY = None"
proof -
  let ?p = "\<lparr>kms_plane_id = 42, plane_type = META_KMS_PLANE_TYPE_PRIMARY,
             possible_crtcs = 1\<rparr>"
  have planes: "planes fixture_device = fixture_planes"
    by (simp add: fixture_device_def device_of_backend_def fixture_impl_device_def)
  have first: "\<exists>i < length (planes fixture_device).
      planes fixture_device ! i = ?p \<and> plane_type ?p = META_KMS_PLANE_TYPE_PRIMARY \<and>
      fixture_is_usable_with ?p fixture_crtc \<and>
      (\<forall>j < i. \<not> (plane_type (planes fixture_device ! j) = META_KMS_PLANE_TYPE_PRIMARY \<and>
                   fixture_is_usable_with (planes fixture_device ! j) fixture_crtc))"
    unfolding planes
    by (rule exI [of _ 2])
      (simp add: fixture_planes_def fixture_is_usable_with_def fixture_crtc_def
        less_Suc_eq numeral_2_eq_2)
  have none: "\<forall>p \<in> set (planes fixture_device).
      \<not> (plane_type p = META_KMS_PLANE_TYPE_OVERLAY \<and> fixture_is_usable_with p fixture_crtc)"
    unfolding planes by (simp add: fixture_planes_def)
  from get_plane_with_type_for_first_usable
    [of fixture_is_usable_with fixture_device fixture_crtc META_KMS_PLANE_TYPE_PRIMARY ?p]
    first
  have a: "meta_kms_device_get_primary_plane_for fixture_is_usable_with fixture_device
             fixture_crtc = Some ?p"
    by simp
  from get_plane_with_type_for_first_usable
    [of fixture_is_usable_with fixture_device fixture_crtc META_KMS_PLANE_TYPE_OVERLAY ?p]
    none
  have b: "get_plane_with_type_for fixture_is_usable_with fixture_device fixture_crtc
             META_KMS_PLANE_TYPE_OVERLAY = None"
    by blast
  from a b show ?thesis by simp
qed

text \<open>
  C7, as amended: after a successful construction the path of the device is the path
  that the adopted backend reports, whatever path the caller asked for; the flags of the
  device are the requested flags, joined with \<^verbatim>\<open>META_KMS_DEVICE_FLAG_HAS_ADDFB2\<close> when
  the capabilities have \<^verbatim>\<open>addfb2_modifiers\<close>. So the flag is set on the device if and
  only if the capability is present or the caller passed the flag, and all other
  requested flags are adopted as passed.
\<close>

theorem device_new_adopts_backend_path_and_flags:
  assumes "meta_kms_device_new NMS HAS g_initable_new kms dev_path dev_flags error =
             Some (Some device, err, kms')"
  shows "\<exists>impl_dev.
           adopted_backend NMS g_initable_new dev_path dev_flags = Some impl_dev \<and>
           impl_device device = Some impl_dev \<and>
           path device = impl_path impl_dev \<and>
           caps device = impl_caps impl_dev \<and>
           flags device = (if addfb2_modifiers (caps device) then dev_flags OR HAS
                           else dev_flags) \<and>
           (flags device AND HAS = HAS \<longleftrightarrow>
              addfb2_modifiers (caps device) \<or> dev_flags AND HAS = HAS) \<and>
           flags device AND NOT HAS = dev_flags AND NOT HAS"
proof -
  from meta_kms_device_new_returns [of NMS HAS g_initable_new kms dev_path dev_flags error]
    assms
  have "Some device = map_option (device_of_backend HAS dev_flags)
               (adopted_backend NMS g_initable_new dev_path dev_flags)"
    by auto
  then obtain impl_dev where
    a: "adopted_backend NMS g_initable_new dev_path dev_flags = Some impl_dev"
    and d: "device = device_of_backend HAS dev_flags impl_dev"
    by (cases "adopted_backend NMS g_initable_new dev_path dev_flags") auto
  have or_and: "(dev_flags OR HAS) AND HAS = HAS"
    by (auto simp: bit_eq_iff bit_simps)
  have or_not: "(dev_flags OR HAS) AND NOT HAS = dev_flags AND NOT HAS"
    by (auto simp: bit_eq_iff bit_simps)
  show ?thesis
    using a d or_and or_not by (simp add: device_of_backend_def)
qed

theorem device_new_adopts_backend_path_and_flags_witness:
  "meta_kms_device_new 16 32 fixture_g_initable_new fixture_kms
       ''/dev/dri/by-path/pci-0000:00:02.0-card'' 1 True =
     Some (Some (device_of_backend 32 1 fixture_impl_device), None,
           fixture_kms\<lparr>impl_devices := [fixture_impl_device],
                       initable_new_calls :=
                         [META_TYPE_KMS_IMPL_DEVICE_ATOMIC, META_TYPE_KMS_IMPL_DEVICE_SIMPLE]\<rparr>) \<and>
   path (device_of_backend 32 1 fixture_impl_device) = ''/dev/dri/card0'' \<and>
   flags (device_of_backend 32 1 fixture_impl_device) = 33"
proof -
  have h: "meta_kms_device_new 16 32 fixture_g_initable_new fixture_kms
       ''/dev/dri/by-path/pci-0000:00:02.0-card'' 1 True =
     Some (Some (device_of_backend 32 1 fixture_impl_device), None,
           fixture_kms\<lparr>impl_devices := [fixture_impl_device],
                       initable_new_calls :=
                         [META_TYPE_KMS_IMPL_DEVICE_ATOMIC, META_TYPE_KMS_IMPL_DEVICE_SIMPLE]\<rparr>)"
    by (simp add: meta_kms_device_new_def meta_kms_run_impl_task_sync_def
        create_impl_device_in_impl_def meta_create_kms_impl_device_def impl_device_types_def
        Let_def meta_kms_device_init_def device_of_backend_def fixture_kms_def
        meta_kms_impl_add_impl_device_def
        meta_kms_impl_device_copy_crtcs_def meta_kms_impl_device_copy_connectors_def
        meta_kms_impl_device_copy_planes_def meta_kms_impl_device_copy_fallback_modes_def
        meta_kms_impl_device_get_caps_def meta_kms_impl_device_get_driver_name_def
        meta_kms_impl_device_get_driver_description_def meta_kms_impl_device_get_path_def
        fixture_impl_device_def fixture_caps_def)
  from device_new_adopts_backend_path_and_flags [OF h] h
  show ?thesis
    by (simp add: fixture_impl_device_def fixture_caps_def device_of_backend_def)
qed

theorem has_addfb2_without_capability_counterexample:
  "meta_kms_device_new 16 32 fixture_g_initable_new_plain fixture_kms ''/dev/dri/card0'' 32 True =
     Some (Some (device_of_backend 32 32 fixture_impl_device_plain), None,
           fixture_kms\<lparr>impl_devices := [fixture_impl_device_plain],
                       initable_new_calls := [META_TYPE_KMS_IMPL_DEVICE_ATOMIC]\<rparr>) \<and>
   flags (device_of_backend 32 32 fixture_impl_device_plain) = 32 \<and>
   flags (device_of_backend 32 32 fixture_impl_device_plain) AND 32 = 32 \<and>
   \<not> addfb2_modifiers (caps (device_of_backend 32 32 fixture_impl_device_plain)) \<and>
   \<not> addfb2_modifiers (impl_caps fixture_impl_device_plain)"
  by (simp add: meta_kms_device_new_def meta_kms_run_impl_task_sync_def
      create_impl_device_in_impl_def meta_create_kms_impl_device_def impl_device_types_def
      Let_def meta_kms_device_init_def device_of_backend_def fixture_kms_def
      meta_kms_impl_add_impl_device_def
      meta_kms_impl_device_copy_crtcs_def meta_kms_impl_device_copy_connectors_def
      meta_kms_impl_device_copy_planes_def meta_kms_impl_device_copy_fallback_modes_def
      meta_kms_impl_device_get_caps_def meta_kms_impl_device_get_driver_name_def
      meta_kms_impl_device_get_driver_description_def meta_kms_impl_device_get_path_def
      fixture_impl_device_plain_def fixture_impl_device_def fixture_caps_def)

text \<open>
  C8: a call of \<^verbatim>\<open>meta_kms_device_disable\<close> from outside the privileged context, on a
  device that has its backend, returns with the backend disabled; a second call right
  after it returns as well, its task reports success and stores no error, and the device
  and the context after the second call are those after the first.
\<close>

theorem disable_twice_same_state:
  assumes "\<not> in_impl_task kms" and "impl_device device = Some impl_dev"
  shows "\<exists>device1 kms1.
           meta_kms_device_disable kms device = Some (device1, kms1) \<and>
           impl_device device1 = Some (meta_kms_impl_device_disable impl_dev) \<and>
           meta_kms_device_disable kms1 device1 = Some (device1, kms1) \<and>
           meta_kms_run_impl_task_sync kms1 disable_device_in_impl (impl_device device1) False =
             Some (True, None, impl_device device1, kms1)"
  using assms
  by (simp add: meta_kms_device_disable_def meta_kms_run_impl_task_sync_def
      disable_device_in_impl_def meta_kms_impl_device_disable_def)

theorem disable_twice_same_state_witness:
  "\<exists>device1 kms1.
     meta_kms_device_disable fixture_kms fixture_device = Some (device1, kms1) \<and>
     map_option impl_active_modes (impl_device device1) = Some [] \<and>
     meta_kms_device_disable kms1 device1 = Some (device1, kms1)"
proof -
  have h1: "\<not> in_impl_task fixture_kms"
    by (simp add: fixture_kms_def)
  have h2: "impl_device fixture_device = Some fixture_impl_device"
    by (simp add: fixture_device_def device_of_backend_def)
  from disable_twice_same_state [OF h1 h2]
  show ?thesis
    by (auto simp: meta_kms_impl_device_disable_def)
qed

text \<open>
  C10: \<^verbatim>\<open>meta_kms_device_get_cursor_size\<close> returns \<^verbatim>\<open>TRUE\<close> exactly when the
  capabilities have a cursor size; then both out-parameters hold the cursor width and
  height of the capabilities, and otherwise both hold what they held before the call.
\<close>

theorem get_cursor_size_iff_has_cursor_size:
  "(fst (meta_kms_device_get_cursor_size device w h) \<longleftrightarrow> has_cursor_size (caps device)) \<and>
   snd (meta_kms_device_get_cursor_size device w h) =
     (if has_cursor_size (caps device)
      then (cursor_width (caps device), cursor_height (caps device)) else (w, h))"
  by (simp add: meta_kms_device_get_cursor_size_def)

theorem get_cursor_size_iff_has_cursor_size_witness:
  "meta_kms_device_get_cursor_size fixture_device 0 0 = (True, 64, 64) \<and>
   meta_kms_device_get_cursor_size meta_kms_device_init 5 6 = (False, 5, 6)"
proof -
  have a: "has_cursor_size (caps fixture_device)"
    by (simp add: fixture_device_def device_of_backend_def fixture_impl_device_def
        fixture_caps_def)
  have b: "cursor_width (caps fixture_device) = 64 \<and> cursor_height (caps fixture_device) = 64"
    by (simp add: fixture_device_def device_of_backend_def fixture_impl_device_def
        fixture_caps_def)
  have c: "\<not> has_cursor_size (caps meta_kms_device_init)"
    by (simp add: meta_kms_device_init_def)
  from get_cursor_size_iff_has_cursor_size [of fixture_device 0 0]
    get_cursor_size_iff_has_cursor_size [of meta_kms_device_init 5 6] a b c
  show ?thesis
    by (simp add: prod_eq_iff)
qed

end
